theory Spec2Isabelle
  imports Complex_Main
begin

section \<open>The chat assistant of app.py\<close>

text \<open>
  A shallow embedding of \<^verbatim>\<open>src/app.py\<close>: the start-up code that builds or loads the
  vector store and constructs the model, the chain assembled in \<^verbatim>\<open>on_chat_start\<close>, the
  message handler \<^verbatim>\<open>on_message\<close> with its callback handler \<^verbatim>\<open>PostMessageHandler\<close>,
  and the password callback \<^verbatim>\<open>auth_callback\<close>.
\<close>

subsection \<open>Python values and errors\<close>

text \<open>
  The exceptions the code can meet. \<^verbatim>\<open>KeyError\<close> carries the missing key; the other
  constructors carry the message of an error raised by a collaborator (the retriever, the
  model, the document loader).
\<close>

datatype py_error =
    KeyError string
  | TypeError string
  | ValueError string
  | AttributeError string
  | OtherError string

text \<open>
  The values found in a document's metadata and formatted by an f-string: the PDF loader
  stores the file path as a \<^verbatim>\<open>str\<close> and the page number as an \<^verbatim>\<open>int\<close>.
\<close>

datatype py_value = PyStr string | PyInt int

text \<open>\<^verbatim>\<open>str(n)\<close> for an integer: its decimal digits, with a minus sign when negative.\<close>

definition digit_char :: "nat \<Rightarrow> char" where
  "digit_char d = ''0123456789'' ! d"

function str_nat :: "nat \<Rightarrow> string" where
  "str_nat n = (if n < 10 then [digit_char n] else str_nat (n div 10) @ [digit_char (n mod 10)])"
  by pat_completeness auto
termination
  by (relation "measure (\<lambda>n. n)") auto

definition str_int :: "int \<Rightarrow> string" where
  "str_int i = (if i < 0 then CHR ''-'' # str_nat (nat (- i)) else str_nat (nat i))"

fun py_str :: "py_value \<Rightarrow> string" where
  "py_str (PyStr s) = s"
| "py_str (PyInt i) = str_int i"

text \<open>\<^verbatim>\<open>sep.join(xs)\<close>\<close>

fun join :: "string \<Rightarrow> string list \<Rightarrow> string" where
  "join sep [] = []"
| "join sep [x] = x"
| "join sep (x # y # ys) = x @ sep @ join sep (y # ys)"

text \<open>
  A Python \<^verbatim>\<open>set\<close> is kept as the list of its members without repetition. \<^verbatim>\<open>add\<close>
  leaves the set as it is when the member is already there. The order in which Python
  iterates a set is not fixed by the language; the list keeps insertion order, and the
  properties below speak of the members only, never of their order.
\<close>

definition set_add :: "'a \<Rightarrow> 'a list \<Rightarrow> 'a list" where
  "set_add x xs = (if x \<in> set xs then xs else xs @ [x])"

subsection \<open>Authentication\<close>

text \<open>
  \<^verbatim>\<open>cl.User(identifier="admin", metadata={"role": "admin", "provider": "credentials"})\<close>
\<close>

record user =
  user_identifier :: string
  user_metadata :: "(string \<times> string) list"

definition admin_user :: user where
  "admin_user =
     \<lparr>user_identifier = ''admin'',
      user_metadata = [(''role'', ''admin''), (''provider'', ''credentials'')]\<rparr>"

definition auth_callback :: "string \<Rightarrow> string \<Rightarrow> user option" where
  "auth_callback username password =
     (if (username, password) = (''admin'', ''admin'') then Some admin_user else None)"

subsection \<open>Documents, the chat message and the callback handler\<close>

text \<open>A retrieved document: its text and its metadata dictionary.\<close>

record document =
  page_content :: string
  metadata :: "string \<rightharpoonup> py_value"

text \<open>\<^verbatim>\<open>cl.Text(name=..., content=..., display=...)\<close>, an element attached to a message.\<close>

record text_element =
  text_name :: string
  text_content :: string
  text_display :: string

text \<open>
  What \<^verbatim>\<open>on_message\<close> does to the chat front end: the calls \<^verbatim>\<open>msg.stream_token(chunk)\<close>
  and \<^verbatim>\<open>msg.send()\<close>, in the order they are made. \<^verbatim>\<open>Send\<close> carries the elements attached
  to the message at the moment it is sent.
\<close>

datatype ui_call = StreamToken string | Send "text_element list"

text \<open>
  The frame of one call of \<^verbatim>\<open>on_message\<close>: the elements of \<^verbatim>\<open>msg\<close> (shared by the
  function and by the handler it creates), the handler's \<^verbatim>\<open>sources\<close> set, and the calls made
  on the front end so far.
\<close>

record frame =
  elements :: "text_element list"
  sources :: "(py_value \<times> py_value) list"
  calls :: "ui_call list"

text \<open>
  \<^verbatim>\<open>PostMessageHandler.on_retriever_end\<close>. A subscript on a missing metadata key raises
  \<^verbatim>\<open>KeyError\<close> and leaves the loop; the pairs added before stay in the set.
\<close>

fun on_retriever_end ::
  "document list \<Rightarrow> (py_value \<times> py_value) list
     \<Rightarrow> (py_value \<times> py_value) list \<times> py_error option" where
  "on_retriever_end [] srcs = (srcs, None)"
| "on_retriever_end (d # ds) srcs =
     (case metadata d ''source'' of
        None \<Rightarrow> (srcs, Some (KeyError ''source''))
      | Some source \<Rightarrow>
          (case metadata d ''page'' of
             None \<Rightarrow> (srcs, Some (KeyError ''page''))
           | Some page \<Rightarrow> on_retriever_end ds (set_add (source, page) srcs)))"

text \<open>The f-string \<^verbatim>\<open>f"{source}#page={page}"\<close>.\<close>

definition citation_line :: "py_value \<times> py_value \<Rightarrow> string" where
  "citation_line = (\<lambda>(source, page). py_str source @ ''#page='' @ py_str page)"

text \<open>\<^verbatim>\<open>PostMessageHandler.on_llm_end\<close>\<close>

definition on_llm_end :: "frame \<Rightarrow> frame" where
  "on_llm_end st =
     (if length (sources st) \<noteq> 0 then
        (let sources_text = join ''\<newline>'' (map citation_line (sources st))
         in st\<lparr>elements := elements st @
              [\<lparr>text_name = ''Sources'', text_content = sources_text,
                text_display = ''inline''\<rparr>]\<rparr>)
      else st)"

subsection \<open>The message handler\<close>

text \<open>
  What \<^verbatim>\<open>runnable.astream(message.content, config)\<close> does while \<^verbatim>\<open>on_message\<close> iterates
  over it, in order: it calls the callbacks of the handler (\<^verbatim>\<open>on_retriever_end\<close> with the
  retrieved documents, \<^verbatim>\<open>on_llm_end\<close>), it yields chunks of text, and it may raise. The
  runnable is whatever the session holds, so the handler is modelled for every such
  sequence. \<^verbatim>\<open>cl.LangchainCallbackHandler\<close>, the second callback, draws the steps of the
  chain in the front end and does not touch \<^verbatim>\<open>msg\<close>; it is left out.
\<close>

datatype stream_item =
    RetrieverEnd "document list"
  | LlmEnd
  | Chunk string
  | Raise py_error

type_synonym runnable = "string \<Rightarrow> stream_item list"

text \<open>
  The \<^verbatim>\<open>async for\<close> loop. The callback manager of the chain library logs an exception
  raised inside a handler and goes on (\<^verbatim>\<open>raise_error\<close> is False for
  \<^verbatim>\<open>PostMessageHandler\<close>), so a \<^verbatim>\<open>KeyError\<close> of \<^verbatim>\<open>on_retriever_end\<close> ends that callback
  only. An exception of the stream itself leaves the loop and the function.
\<close>

fun astream_loop :: "stream_item list \<Rightarrow> frame \<Rightarrow> frame \<times> py_error option" where
  "astream_loop [] st = (st, None)"
| "astream_loop (RetrieverEnd documents # items) st =
     astream_loop items (st\<lparr>sources := fst (on_retriever_end documents (sources st))\<rparr>)"
| "astream_loop (LlmEnd # items) st = astream_loop items (on_llm_end st)"
| "astream_loop (Chunk chunk # items) st =
     astream_loop items (st\<lparr>calls := calls st @ [StreamToken chunk]\<rparr>)"
| "astream_loop (Raise e # items) st = (st, Some e)"

text \<open>
  The result of one call of \<^verbatim>\<open>on_message\<close>: the calls it made on the front end, and the
  exception that left the function, if any.
\<close>

record outcome =
  made :: "ui_call list"
  raised :: "py_error option"

text \<open>
  \<^verbatim>\<open>msg = cl.Message(content="")\<close> has no elements, and \<^verbatim>\<open>PostMessageHandler(msg)\<close> starts
  with \<^verbatim>\<open>sources = set()\<close>.
\<close>

definition new_frame :: frame where
  "new_frame = \<lparr>elements = [], sources = [], calls = []\<rparr>"

text \<open>
  \<^verbatim>\<open>on_message\<close>. The session is the per-session store of the chat framework;
  \<^verbatim>\<open>cl.user_session.get("runnable")\<close> is None when nothing was stored, and the call of
  \<^verbatim>\<open>astream\<close> on None raises \<^verbatim>\<open>AttributeError\<close>. There is no try statement: an exception
  leaves the function before \<^verbatim>\<open>msg.send()\<close>.
\<close>

definition on_message :: "(string \<rightharpoonup> runnable) \<Rightarrow> string \<Rightarrow> outcome" where
  "on_message user_session content =
     (case user_session ''runnable'' of
        None \<Rightarrow> \<lparr>made = [], raised = Some (AttributeError ''astream'')\<rparr>
      | Some runnable \<Rightarrow>
          (case astream_loop (runnable content) new_frame of
             (st, Some e) \<Rightarrow> \<lparr>made = calls st, raised = Some e\<rparr>
           | (st, None) \<Rightarrow> \<lparr>made = calls st @ [Send (elements st)], raised = None\<rparr>))"

text \<open>
  The chat framework calls \<^verbatim>\<open>on_message\<close> once for every message of a session, one call
  after the other. \<^verbatim>\<open>on_message\<close> returns nothing and stores nothing in the session, and
  its message and its handler are objects local to the call: each call starts from the
  session alone.
\<close>

definition serve :: "(string \<rightharpoonup> runnable) \<Rightarrow> string list \<Rightarrow> outcome list" where
  "serve user_session questions = map (on_message user_session) questions"

subsection \<open>The chain of on_chat_start\<close>

text \<open>
  A prompt template in f-string format: literal text and replacement fields \<^verbatim>\<open>{name}\<close>.
  \<^verbatim>\<open>parse_template\<close> reads a template the way the formatter of Python does for the plain
  fields this program uses: \<^verbatim>\<open>{{\<close> and \<^verbatim>\<open>}}\<close> are literal braces, a field runs to the next
  \<^verbatim>\<open>}\<close>, and a single brace that opens or closes nothing is a \<^verbatim>\<open>ValueError\<close>. Its first
  argument collects the literal text read so far (reversed), its second the name of the
  field being read, if any. Conversions and format specifications are not modelled; the
  template has none.
\<close>

datatype segment = Lit string | Field string

fun parse_template :: "string \<Rightarrow> string option \<Rightarrow> string \<Rightarrow> py_error + segment list" where
  "parse_template lit None [] = Inr [Lit (rev lit)]"
| "parse_template lit (Some name) [] = Inl (ValueError ''expected } before end of string'')"
| "parse_template lit None [c] =
     (if c = CHR ''{'' then Inl (ValueError ''Single { encountered in format string'')
      else if c = CHR ''}'' then Inl (ValueError ''Single } encountered in format string'')
      else Inr [Lit (rev (c # lit))])"
| "parse_template lit None (c # d # cs) =
     (if c = CHR ''{'' \<and> d = CHR ''{'' then parse_template (c # lit) None cs
      else if c = CHR ''{'' then parse_template lit (Some []) (d # cs)
      else if c = CHR ''}'' \<and> d = CHR ''}'' then parse_template (c # lit) None cs
      else if c = CHR ''}'' then Inl (ValueError ''Single } encountered in format string'')
      else parse_template (c # lit) None (d # cs))"
| "parse_template lit (Some name) (c # cs) =
     (if c = CHR ''}'' then
        (case parse_template [] None cs of
           Inl e \<Rightarrow> Inl e
         | Inr segs \<Rightarrow> Inr (Lit (rev lit) # Field (rev name) # segs))
      else parse_template lit (Some (c # name)) cs)"

text \<open>
  Formatting a parsed template with the keyword arguments: every field is looked up, and a
  field that the arguments do not give raises \<^verbatim>\<open>KeyError\<close> with its name. Arguments that
  no field names are ignored.
\<close>

fun format_segments :: "segment list \<Rightarrow> (string \<rightharpoonup> string) \<Rightarrow> py_error + string" where
  "format_segments [] kwargs = Inr []"
| "format_segments (Lit s # segs) kwargs =
     (case format_segments segs kwargs of Inl e \<Rightarrow> Inl e | Inr rest \<Rightarrow> Inr (s @ rest))"
| "format_segments (Field name # segs) kwargs =
     (case kwargs name of
        None \<Rightarrow> Inl (KeyError name)
      | Some v \<Rightarrow>
          (case format_segments segs kwargs of Inl e \<Rightarrow> Inl e | Inr rest \<Rightarrow> Inr (v @ rest)))"

text \<open>
  The template of \<^verbatim>\<open>on_chat_start\<close>, one piece for each line of the source. It is one
  triple-quoted string: the quotation marks and the indentation are part of the text, and
  each \<^verbatim>\<open>\n\<close> of the source is a newline.
\<close>

definition template :: string where
  \<open>template =
     ''\<newline>'' @
     ''            "system\<newline>"\<newline>'' @
     ''            "You are an AI assistant for Generative AI Policy Insights, developed by the Boston University's GenAI Task Force. Your main mission is to help users understand how different organizations perceive and make policies regarding the use of GenAI. Answer the user's question using the provided context that is relevant. The context is ordered by relevance. "\<newline>'' @
     ''            "If you don't know the answer, do your best without making things up. If you cannot answer, just say you don't have enough relevant information to answer the questions. Keep the conversation flowing naturally. "\<newline>'' @
     ''            "Always cite the source of the information. Use the source context that is most relevant. "\<newline>'' @
     ''            "Keep the answer concise, yet professional and informative. Avoid sounding repetitive or robotic.\<newline>"\<newline>'' @
     ''            "\<newline>\<newline>"\<newline>'' @
     ''            "user\<newline>"\<newline>'' @
     ''            "Context:\<newline>{context}\<newline>\<newline>"\<newline>'' @
     ''            "Question: {input}\<newline>"\<newline>'' @
     ''            "\<newline>\<newline>"\<newline>'' @
     ''            "assistant"\<newline>'' @
     ''    ''\<close>

text \<open>\<^verbatim>\<open>format_docs\<close>\<close>

definition format_docs :: "document list \<Rightarrow> string" where
  "format_docs docs = join ''\<newline>\<newline>'' (map page_content docs)"

text \<open>
  The retriever and the model are the objects built at start-up. For the chain they are
  what they do: the retriever returns documents for a query or raises; the model, given a
  prompt, yields fragments of text and then ends, or raises after some fragments.
\<close>

type_synonym retriever = "string \<Rightarrow> py_error + document list"

type_synonym llm = "string \<Rightarrow> string list \<times> py_error option"

text \<open>
  The chain
  \<^verbatim>\<open>{"context": retriever | format_docs, "question": RunnablePassthrough()} | prompt | model | StrOutputParser()\<close>
  under \<^verbatim>\<open>astream\<close>. The first step builds the dictionary with the keys \<^verbatim>\<open>context\<close> and
  \<^verbatim>\<open>question\<close>; the retriever reports its documents to \<^verbatim>\<open>on_retriever_end\<close>. The prompt
  formats the template with that dictionary; as a chat prompt with one human message it
  reaches the model as the text \<^verbatim>\<open>Human: ...\<close>. The model streams its fragments and then
  reports \<^verbatim>\<open>on_llm_end\<close>; the output parser passes the fragments on as they are. An
  exception of any step ends the stream.
\<close>

definition chain :: "segment list \<Rightarrow> retriever \<Rightarrow> llm \<Rightarrow> runnable" where
  "chain prompt retriever model question =
     (case retriever question of
        Inl e \<Rightarrow> [Raise e]
      | Inr docs \<Rightarrow>
          RetrieverEnd docs #
          (case format_segments prompt
                  [''context'' \<mapsto> format_docs docs, ''question'' \<mapsto> question] of
             Inl e \<Rightarrow> [Raise e]
           | Inr text \<Rightarrow>
               (case model (''Human: '' @ text) of
                  (chunks, None) \<Rightarrow> map Chunk chunks @ [LlmEnd]
                | (chunks, Some e) \<Rightarrow> map Chunk chunks @ [Raise e])))"

text \<open>
  \<^verbatim>\<open>on_chat_start\<close>: the template is parsed (\<^verbatim>\<open>ChatPromptTemplate.from_template\<close>), the
  chain is composed and stored in the session under \<^verbatim>\<open>runnable\<close>.
\<close>

definition on_chat_start ::
  "retriever \<Rightarrow> llm \<Rightarrow> (string \<rightharpoonup> runnable) \<Rightarrow> py_error + (string \<rightharpoonup> runnable)" where
  "on_chat_start retriever model user_session =
     (case parse_template [] None template of
        Inl e \<Rightarrow> Inl e
      | Inr prompt \<Rightarrow> Inr (user_session(''runnable'' \<mapsto> chain prompt retriever model)))"

subsection \<open>Start-up\<close>

text \<open>
  The value that \<^verbatim>\<open>yaml.safe_load\<close> returns for the configuration file: scalars and
  dictionaries (the first binding of a key is the one that counts). A subscript on a
  dictionary raises \<^verbatim>\<open>KeyError\<close> for a missing key, on a scalar \<^verbatim>\<open>TypeError\<close>.
\<close>

datatype yaml = YScalar string | YDict "(string \<times> yaml) list"

fun subscript :: "yaml \<Rightarrow> string \<Rightarrow> py_error + yaml" where
  "subscript (YDict kvs) key =
     (case map_of kvs key of None \<Rightarrow> Inl (KeyError key) | Some v \<Rightarrow> Inr v)"
| "subscript (YScalar s) key = Inl (TypeError ''string indices must be integers'')"

text \<open>
  The names imported from \<^verbatim>\<open>modules.config.constants\<close>, whose values are not part of
  \<^verbatim>\<open>app.py\<close>.
\<close>

record constants =
  chatbot_log_dir :: string
  config_chatbot_dir :: string
  huggingface_token :: string
  chatbot_dir :: string

text \<open>
  What start-up asks of its surroundings: reading and parsing the configuration file at a
  path, \<^verbatim>\<open>process_pdf\<close> of \<^verbatim>\<open>modules.data_loader\<close> on a directory, and
  \<^verbatim>\<open>os.path.exists\<close>. The first two may raise.
\<close>

record environment =
  load_config :: "string \<Rightarrow> py_error + yaml"
  process_pdf :: "string \<Rightarrow> py_error + document list"
  path_exists :: "string \<Rightarrow> bool"

text \<open>
  The objects built at start-up, each as the constructor call that makes it.
  \<^verbatim>\<open>HuggingFaceEmbeddings(model_name=..., model_kwargs={...})\<close>:
\<close>

record hugging_face_embeddings =
  model_name :: yaml
  device :: string
  token :: string
  trust_remote_code :: bool

text \<open>
  \<^verbatim>\<open>Chroma(persist_directory, embedding_function)\<close> opens the store kept in a directory;
  \<^verbatim>\<open>Chroma.from_documents(documents, embedding, persist_directory)\<close> builds a store from
  documents and keeps it in the directory.
\<close>

datatype chroma =
    Chroma string hugging_face_embeddings
  | Chroma_from_documents "document list" hugging_face_embeddings string

text \<open>\<^verbatim>\<open>vectorstore.as_retriever(search_type=..., search_kwargs={"k": ...})\<close>\<close>

record vector_store_retriever =
  store :: chroma
  search_type :: string
  search_k :: nat

text \<open>\<^verbatim>\<open>LlamaCpp(model_path=..., n_batch=..., n_ctx=..., f16_kv=..., verbose=..., n_threads=..., temperature=...)\<close>\<close>

record llama_cpp =
  model_path :: string
  n_batch :: int
  n_ctx :: int
  f16_kv :: bool
  verbose :: bool
  n_threads :: int
  temperature :: real

text \<open>The module's global variables once start-up has run.\<close>

record app =
  embedding_config :: yaml
  retriever_config :: yaml
  llama_config :: yaml
  embedding_model :: hugging_face_embeddings
  all_splits :: "document list"
  vectorstore :: chroma
  retriever :: vector_store_retriever
  model :: llama_cpp

text \<open>
  The statements of the module, from the loading of the configuration to the construction
  of the model, in the order of the source. An exception ends start-up.
\<close>

definition startup :: "constants \<Rightarrow> environment \<Rightarrow> py_error + app" where
  "startup c env =
     (case load_config env (config_chatbot_dir c) of
        Inl e \<Rightarrow> Inl e
      | Inr config \<Rightarrow>
     (case subscript config ''embedding_model'' of
        Inl e \<Rightarrow> Inl e
      | Inr section \<Rightarrow>
     (case subscript section ''sentence-transformers'' of
        Inl e \<Rightarrow> Inl e
      | Inr embedding_config' \<Rightarrow>
     (case subscript config ''retriever'' of
        Inl e \<Rightarrow> Inl e
      | Inr retriever_config' \<Rightarrow>
     (case subscript config ''llama_cpp'' of
        Inl e \<Rightarrow> Inl e
      | Inr llama_config' \<Rightarrow>
     (let embedding_model' =
            \<lparr>model_name = embedding_config', device = ''cpu'',
             token = huggingface_token c, trust_remote_code = True\<rparr>
      in
     (case process_pdf env (chatbot_dir c) of
        Inl e \<Rightarrow> Inl e
      | Inr all_splits' \<Rightarrow>
     (let vectorstore' =
            (if path_exists env ''data/vectorstore/chroma.sqlite3''
             then Chroma ''data/vectorstore'' embedding_model'
             else Chroma_from_documents all_splits' embedding_model' ''data/vectorstore'');
          retriever' =
            \<lparr>store = vectorstore', search_type = ''similarity'', search_k = 3\<rparr>;
          model' =
            \<lparr>model_path = ''C:/Users/pnhua/Downloads/tinyllama-1.1b-chat-v1.0.Q4_K_S.gguf'',
             n_batch = 512, n_ctx = 2048, f16_kv = True, verbose = True, n_threads = 2,
             temperature = 0.7\<rparr>
      in Inr \<lparr>embedding_config = embedding_config', retriever_config = retriever_config',
               llama_config = llama_config', embedding_model = embedding_model',
               all_splits = all_splits', vectorstore = vectorstore',
               retriever = retriever', model = model'\<rparr>))))))))"

subsection \<open>The vector store\<close>

text \<open>
  Modelled from the spec: the vector store is a library outside \<^verbatim>\<open>app.py\<close>. Building a
  store embeds every chunk it is given; opening a persisted store embeds nothing. These are
  the texts handed to the embedding model when the store is made.
\<close>

fun embedded_texts :: "chroma \<Rightarrow> string list" where
  "embedded_texts (Chroma persist_directory embedding) = []"
| "embedded_texts (Chroma_from_documents documents embedding persist_directory) =
     map page_content documents"

text \<open>The directory in which the store is kept.\<close>

fun persist_directory :: "chroma \<Rightarrow> string" where
  "persist_directory (Chroma directory embedding) = directory"
| "persist_directory (Chroma_from_documents documents embedding directory) = directory"

text \<open>
  Modelled from the spec: the search of the vector store, which is a library outside
  \<^verbatim>\<open>app.py\<close>. It returns the \<open>k\<close> entries nearest to the query vector, nearest first, ties in
  the order of insertion; a \<open>k\<close> larger than the index returns every entry. The vectors and
  their distance are left open.
\<close>

definition similarity_search ::
  "('v \<Rightarrow> 'v \<Rightarrow> 'd::linorder) \<Rightarrow> (document \<times> 'v) list \<Rightarrow> 'v \<Rightarrow> nat \<Rightarrow> document list" where
  "similarity_search distance entries query_embedding k =
     map fst (take k (sort_key (\<lambda>entry. distance query_embedding (snd entry)) entries))"

text \<open>
  Modelled from the spec: retrieval embeds the text of the query and searches the index
  with the \<open>k\<close> of the retriever.
\<close>

definition get_relevant_documents ::
  "vector_store_retriever \<Rightarrow> (string \<Rightarrow> 'v) \<Rightarrow> ('v \<Rightarrow> 'v \<Rightarrow> 'd::linorder)
     \<Rightarrow> (document \<times> 'v) list \<Rightarrow> string \<Rightarrow> document list" where
  "get_relevant_documents r embed_query distance entries query =
     similarity_search distance entries (embed_query query) (search_k r)"

subsection \<open>Reading a stream and an outcome\<close>

text \<open>
  The vocabulary of the properties. Of a stream: the chunks it yields, the documents it
  reports as retrieved, the items before its first exception, and whether a stretch of it
  is free of exceptions and of \<^verbatim>\<open>on_llm_end\<close>.
\<close>

fun chunks_of :: "stream_item list \<Rightarrow> string list" where
  "chunks_of [] = []"
| "chunks_of (Chunk chunk # items) = chunk # chunks_of items"
| "chunks_of (item # items) = chunks_of items"

fun retrieved :: "stream_item list \<Rightarrow> document list" where
  "retrieved [] = []"
| "retrieved (RetrieverEnd documents # items) = documents @ retrieved items"
| "retrieved (item # items) = retrieved items"

fun is_raise :: "stream_item \<Rightarrow> bool" where
  "is_raise (Raise e) = True"
| "is_raise item = False"


definition consumed :: "stream_item list \<Rightarrow> stream_item list" where
  "consumed items = takeWhile (\<lambda>item. \<not> is_raise item) items"


text \<open>
  Of a document: its (source, page) pair, when its metadata has both keys. Of a list of
  documents: the pairs of its documents, and whether every document has one.
\<close>

definition source_page :: "document \<Rightarrow> (py_value \<times> py_value) option" where
  "source_page d =
     (case metadata d ''source'' of
        None \<Rightarrow> None
      | Some source \<Rightarrow>
          (case metadata d ''page'' of None \<Rightarrow> None | Some page \<Rightarrow> Some (source, page)))"

fun doc_pairs :: "document list \<Rightarrow> (py_value \<times> py_value) list" where
  "doc_pairs [] = []"
| "doc_pairs (d # ds) =
     (case source_page d of None \<Rightarrow> doc_pairs ds | Some p \<Rightarrow> p # doc_pairs ds)"


text \<open>
  The citation block for a list of pairs, the elements that the calls of an outcome sent,
  and what it is for an element to cite pairs of a given set only.
\<close>

definition sources_element :: "(py_value \<times> py_value) list \<Rightarrow> text_element" where
  "sources_element ps =
     \<lparr>text_name = ''Sources'', text_content = join ''\<newline>'' (map citation_line ps),
      text_display = ''inline''\<rparr>"

fun sent_elements :: "ui_call list \<Rightarrow> text_element list" where
  "sent_elements [] = []"
| "sent_elements (StreamToken chunk # cs) = sent_elements cs"
| "sent_elements (Send els # cs) = els @ sent_elements cs"

definition cites_only :: "(py_value \<times> py_value) set \<Rightarrow> text_element \<Rightarrow> bool" where
  "cites_only P el = (\<exists>ps. ps \<noteq> [] \<and> distinct ps \<and> set ps \<subseteq> P \<and> el = sources_element ps)"

subsection \<open>Example inputs\<close>

text \<open>
  Three retrieved chunks, two of them from page 1 of the same file; a stream that
  completes, and one whose model fails after a fragment.
\<close>

definition doc_a1 :: document where
  "doc_a1 = \<lparr>page_content = ''alpha'',
              metadata = [''source'' \<mapsto> PyStr ''A'', ''page'' \<mapsto> PyInt 1]\<rparr>"

definition doc_a1_more :: document where
  "doc_a1_more = \<lparr>page_content = ''beta'',
                   metadata = [''source'' \<mapsto> PyStr ''A'', ''page'' \<mapsto> PyInt 1]\<rparr>"

definition doc_b2 :: document where
  "doc_b2 = \<lparr>page_content = ''gamma'',
              metadata = [''source'' \<mapsto> PyStr ''B'', ''page'' \<mapsto> PyInt 2]\<rparr>"

definition example_stream :: runnable where
  "example_stream question =
     [RetrieverEnd [doc_a1, doc_a1_more, doc_b2], Chunk ''Gen'', Chunk ''AI'', LlmEnd]"

definition example_session :: "string \<rightharpoonup> runnable" where
  "example_session = [''runnable'' \<mapsto> example_stream]"

definition failing_stream :: runnable where
  "failing_stream question =
     [RetrieverEnd [doc_a1], Chunk ''Gen'', Raise (OtherError ''GenerationError'')]"

definition failing_session :: "string \<rightharpoonup> runnable" where
  "failing_session = [''runnable'' \<mapsto> failing_stream]"


text \<open>
  A start-up: values for the imported constants, a configuration file, and surroundings in
  which the index file is present or not. A second configuration differs in its
  \<^verbatim>\<open>llama_cpp\<close> section.
\<close>

definition example_constants :: constants where
  "example_constants =
     \<lparr>chatbot_log_dir = ''logs'', config_chatbot_dir = ''config.yml'',
      huggingface_token = ''hf_token'', chatbot_dir = ''data/pdf''\<rparr>"

definition example_config :: yaml where
  "example_config =
     YDict [(''embedding_model'', YDict [(''sentence-transformers'', YScalar ''all-mpnet-base-v2'')]),
            (''retriever'', YDict [(''k'', YScalar ''5'')]),
            (''llama_cpp'',
               YDict [(''model_path'', YScalar ''models/llama.gguf''), (''n_ctx'', YScalar ''4096''),
                      (''temperature'', YScalar ''0.1''), (''n_threads'', YScalar ''8''),
                      (''n_batch'', YScalar ''64'')])]"

definition other_config :: yaml where
  "other_config =
     YDict [(''embedding_model'', YDict [(''sentence-transformers'', YScalar ''all-mpnet-base-v2'')]),
            (''retriever'', YDict []),
            (''llama_cpp'', YDict [(''n_ctx'', YScalar ''512'')])]"

definition example_environment :: "bool \<Rightarrow> environment" where
  "example_environment index_present =
     \<lparr>load_config = (\<lambda>path. if path = ''config.yml'' then Inr example_config
                              else Inl (OtherError ''FileNotFoundError'')),
      process_pdf = (\<lambda>directory. Inr [doc_a1, doc_b2]),
      path_exists = (\<lambda>path. index_present \<and> path = ''data/vectorstore/chroma.sqlite3'')\<rparr>"

definition example_embeddings :: hugging_face_embeddings where
  "example_embeddings =
     \<lparr>model_name = YScalar ''all-mpnet-base-v2'', device = ''cpu'', token = ''hf_token'',
      trust_remote_code = True\<rparr>"

text \<open>The model that start-up constructs, and the globals it leaves for the example.\<close>

definition the_model :: llama_cpp where
  "the_model =
     \<lparr>model_path = ''C:/Users/pnhua/Downloads/tinyllama-1.1b-chat-v1.0.Q4_K_S.gguf'',
      n_batch = 512, n_ctx = 2048, f16_kv = True, verbose = True, n_threads = 2,
      temperature = 0.7\<rparr>"

definition example_app :: "bool \<Rightarrow> app" where
  "example_app index_present =
     (let vs = (if index_present then Chroma ''data/vectorstore'' example_embeddings
                else Chroma_from_documents [doc_a1, doc_b2] example_embeddings ''data/vectorstore'')
      in \<lparr>embedding_config = YScalar ''all-mpnet-base-v2'',
          retriever_config = YDict [(''k'', YScalar ''5'')],
          llama_config =
            YDict [(''model_path'', YScalar ''models/llama.gguf''), (''n_ctx'', YScalar ''4096''),
                   (''temperature'', YScalar ''0.1''), (''n_threads'', YScalar ''8''),
                   (''n_batch'', YScalar ''64'')],
          embedding_model = example_embeddings,
          all_splits = [doc_a1, doc_b2],
          vectorstore = vs,
          retriever = \<lparr>store = vs, search_type = ''similarity'', search_k = 3\<rparr>,
          model = the_model\<rparr>)"

text \<open>An index of five entries; vectors are integers and the distance is the difference.\<close>

definition example_entries :: "(document \<times> int) list" where
  "example_entries = [(doc_a1, 9), (doc_b2, 2), (doc_a1_more, 4), (doc_b2, 7), (doc_a1, 5)]"

section \<open>Properties\<close>

subsection \<open>The callback handler and the loop\<close>

lemma set_add_set: "set (set_add x xs) = insert x (set xs)"
  by (auto simp: set_add_def)

lemma set_add_distinct: "distinct xs \<Longrightarrow> distinct (set_add x xs)"
  by (simp add: set_add_def)

lemma on_retriever_end_distinct:
  "distinct srcs \<Longrightarrow> distinct (fst (on_retriever_end docs srcs))"
  by (induction docs arbitrary: srcs) (auto simp: set_add_distinct split: option.splits)

lemma doc_pairs_append: "doc_pairs (xs @ ys) = doc_pairs xs @ doc_pairs ys"
  by (induction xs) (simp_all split: option.split)

lemma on_retriever_end_subset:
  "set (fst (on_retriever_end docs srcs)) \<subseteq> set srcs \<union> set (doc_pairs docs)"
proof (induction docs arbitrary: srcs)
  case Nil
  show ?case by simp
next
  case (Cons d ds)
  show ?case
  proof (cases "source_page d")
    case None
    then show ?thesis
      by (auto simp: source_page_def split: option.splits)
  next
    case (Some p)
    then obtain s g where sg: "metadata d ''source'' = Some s" "metadata d ''page'' = Some g" "p = (s, g)"
      by (auto simp: source_page_def split: option.splits)
    have "set (fst (on_retriever_end ds (set_add (s, g) srcs)))
            \<subseteq> set (set_add (s, g) srcs) \<union> set (doc_pairs ds)"
      by (rule Cons.IH)
    then show ?thesis
      using sg Some by (auto simp: set_add_set)
  qed
qed


lemma astream_loop_append:
  "list_all (\<lambda>item. \<not> is_raise item) xs \<Longrightarrow>
   astream_loop (xs @ ys) st = astream_loop ys (fst (astream_loop xs st))
   \<and> snd (astream_loop xs st) = None"
proof (induction xs arbitrary: st)
  case Nil
  show ?case by simp
next
  case (Cons x xs)
  then show ?case by (cases x) simp_all
qed

lemma astream_loop_calls:
  "list_all (\<lambda>item. \<not> is_raise item) xs \<Longrightarrow>
   calls (fst (astream_loop xs st)) = calls st @ map StreamToken (chunks_of xs)"
proof (induction xs arbitrary: st)
  case Nil
  show ?case by simp
next
  case (Cons x xs)
  then show ?case by (cases x) (simp_all add: on_llm_end_def Let_def)
qed

lemma astream_loop_calls_consumed:
  "calls (fst (astream_loop xs st)) = calls st @ map StreamToken (chunks_of (consumed xs))"
proof (induction xs arbitrary: st)
  case Nil
  show ?case by (simp add: consumed_def)
next
  case (Cons x xs)
  then show ?case by (cases x) (simp_all add: on_llm_end_def Let_def consumed_def)
qed

lemma astream_loop_raise:
  "list_all (\<lambda>item. \<not> is_raise item) xs \<Longrightarrow>
   astream_loop (xs @ Raise e # ys) st = (fst (astream_loop xs st), Some e)"
  using astream_loop_append [of xs "Raise e # ys" st] by simp





lemma sent_elements_tokens: "sent_elements (map StreamToken cs) = []"
  by (induction cs) simp_all

lemma sent_elements_append: "sent_elements (xs @ ys) = sent_elements xs @ sent_elements ys"
  by (induction xs rule: sent_elements.induct) simp_all

lemma astream_loop_cites:
  assumes "distinct (sources st)" "set (sources st) \<subseteq> P"
    and "set (doc_pairs (retrieved xs)) \<subseteq> P"
    and "\<forall>el \<in> set (elements st). cites_only P el"
  shows "\<forall>el \<in> set (elements (fst (astream_loop xs st))). cites_only P el"
  using assms
proof (induction xs arbitrary: st)
  case Nil
  then show ?case by simp
next
  case (Cons x xs)
  show ?case
  proof (cases x)
    case (RetrieverEnd docs)
    let ?st = "st\<lparr>sources := fst (on_retriever_end docs (sources st))\<rparr>"
    have d: "distinct (sources ?st)"
      using Cons.prems(1) by (simp add: on_retriever_end_distinct)
    have "set (doc_pairs docs) \<subseteq> P" "set (doc_pairs (retrieved xs)) \<subseteq> P"
      using Cons.prems(3) RetrieverEnd by (simp_all add: doc_pairs_append)
    then have s: "set (sources ?st) \<subseteq> P" and r: "set (doc_pairs (retrieved xs)) \<subseteq> P"
      using on_retriever_end_subset [of docs "sources st"] Cons.prems(2) by auto
    have e: "\<forall>el \<in> set (elements ?st). cites_only P el"
      using Cons.prems(4) by simp
    from Cons.IH [OF d s r e] RetrieverEnd show ?thesis by simp
  next
    case LlmEnd
    have d: "distinct (sources (on_llm_end st))" and s: "set (sources (on_llm_end st)) \<subseteq> P"
      using Cons.prems(1,2) by (simp_all add: on_llm_end_def Let_def)
    have r: "set (doc_pairs (retrieved xs)) \<subseteq> P"
      using Cons.prems(3) LlmEnd by simp
    have e: "\<forall>el \<in> set (elements (on_llm_end st)). cites_only P el"
    proof (cases "sources st = []")
      case True
      with Cons.prems(4) show ?thesis by (simp add: on_llm_end_def)
    next
      case False
      have "cites_only P (sources_element (sources st))"
        unfolding cites_only_def using False Cons.prems(1,2) by blast
      with Cons.prems(4) False show ?thesis
        by (auto simp: on_llm_end_def Let_def sources_element_def)
    qed
    from Cons.IH [OF d s r e] LlmEnd show ?thesis by simp
  next
    case (Chunk c)
    with Cons.prems Cons.IH [of "st\<lparr>calls := calls st @ [StreamToken c]\<rparr>"]
    show ?thesis by simp
  next
    case (Raise e)
    with Cons.prems show ?thesis by simp
  qed
qed

lemma on_message_sent:
  assumes "user_session ''runnable'' = Some runnable"
  shows "set (sent_elements (made (on_message user_session question)))
           \<subseteq> set (elements (fst (astream_loop (runnable question) new_frame)))"
proof (cases "astream_loop (runnable question) new_frame")
  case (Pair st r)
  have c: "calls st = map StreamToken (chunks_of (consumed (runnable question)))"
    using astream_loop_calls_consumed [of "runnable question" new_frame] Pair
    by (simp add: new_frame_def)
  show ?thesis
    using assms Pair c
    by (cases r) (simp_all add: on_message_def sent_elements_tokens sent_elements_append)
qed

text \<open>The examples, evaluated.\<close>

lemmas example_defs =
  doc_a1_def doc_a1_more_def doc_b2_def example_stream_def example_session_def
  failing_stream_def failing_session_def

lemma example_run:
  "on_message example_session q =
     \<lparr>made = [StreamToken ''Gen'', StreamToken ''AI'',
              Send [\<lparr>text_name = ''Sources'', text_content = ''A#page=1\<newline>B#page=2'',
                     text_display = ''inline''\<rparr>]],
      raised = None\<rparr>"
  by (simp add: example_defs on_message_def new_frame_def on_llm_end_def set_add_def
      citation_line_def str_int_def digit_char_def Let_def)

lemma example_sent:
  "sent_elements (made (on_message example_session q)) =
     [sources_element [(PyStr ''A'', PyInt 1), (PyStr ''B'', PyInt 2)]]"
  by (simp add: example_run sources_element_def citation_line_def str_int_def digit_char_def)

subsection \<open>The citation block\<close>



text \<open>
  C4. In every request of a session, the citation set starts empty and every citation
  block sent cites only (source, page) pairs of documents that the retrieval of that same
  request returned: no pair of an earlier request and no pair of content that was not
  retrieved. The set is local to the call and is gone when the call ends.
\<close>

theorem citations_from_this_request:
  assumes "user_session ''runnable'' = Some runnable" and "i < length questions"
  shows "\<forall>el \<in> set (sent_elements (made (serve user_session questions ! i))).
           cites_only (set (doc_pairs (retrieved (runnable (questions ! i))))) el"
proof -
  let ?q = "questions ! i"
  let ?P = "set (doc_pairs (retrieved (runnable ?q)))"
  have "\<forall>el \<in> set (elements (fst (astream_loop (runnable ?q) new_frame))). cites_only ?P el"
    by (rule astream_loop_cites) (simp_all add: new_frame_def)
  moreover have "serve user_session questions ! i = on_message user_session ?q"
    using assms(2) by (simp add: serve_def)
  ultimately show ?thesis
    using on_message_sent [of user_session runnable ?q] assms(1) by auto
qed

text \<open>The second request of a session cites the documents of its own retrieval.\<close>

theorem citations_from_this_request_witness:
  "example_session ''runnable'' = Some example_stream
   \<and> (1::nat) < length [''first'', ''second'']
   \<and> sent_elements (made (serve example_session [''first'', ''second''] ! 1)) =
       [sources_element [(PyStr ''A'', PyInt 1), (PyStr ''B'', PyInt 2)]]
   \<and> cites_only (set (doc_pairs (retrieved (example_stream ''second''))))
       (sources_element [(PyStr ''A'', PyInt 1), (PyStr ''B'', PyInt 2)])"
proof -
  have h1: "example_session ''runnable'' = Some example_stream"
    by (simp add: example_session_def)
  have h2: "(1::nat) < length [''first'', ''second'']" by simp
  have s: "sent_elements (made (serve example_session [''first'', ''second''] ! 1)) =
       [sources_element [(PyStr ''A'', PyInt 1), (PyStr ''B'', PyInt 2)]]"
    by (simp add: serve_def example_sent)
  from citations_from_this_request
      [of example_session example_stream 1 "[''first'', ''second'']"] s h1 h2
  show ?thesis by simp
qed

subsection \<open>Streaming\<close>



subsection \<open>Errors of a request\<close>

text \<open>
  C7, as claimed: an error of a request is caught in the message handler and shown as a
  closing message. It is not: when the model fails after one fragment, the exception leaves
  \<^verbatim>\<open>on_message\<close>, which has forwarded the fragment and sends nothing more.
\<close>

theorem error_not_caught:
  "on_message failing_session ''q'' =
     \<lparr>made = [StreamToken ''Gen''], raised = Some (OtherError ''GenerationError'')\<rparr>"
  by (simp add: example_defs on_message_def new_frame_def set_add_def)

text \<open>
  C7, amended. An exception raised while the chain streams (by retrieval, by the prompt or
  by generation) is not caught by \<^verbatim>\<open>on_message\<close>: it leaves the handler. The fragments that
  arrived before it have been forwarded; \<^verbatim>\<open>msg.send()\<close> is not called, so the handler sends
  neither a citation block nor a notice of failure.
\<close>

theorem error_leaves_on_message:
  assumes "user_session ''runnable'' = Some runnable"
    and "runnable question = arrived @ Raise e # rest"
    and "list_all (\<lambda>item. \<not> is_raise item) arrived"
  shows "on_message user_session question =
           \<lparr>made = map StreamToken (chunks_of arrived), raised = Some e\<rparr>"
proof -
  have "astream_loop (runnable question) new_frame = (fst (astream_loop arrived new_frame), Some e)"
    using astream_loop_raise [OF assms(3)] assms(2) by simp
  moreover have "calls (fst (astream_loop arrived new_frame)) = map StreamToken (chunks_of arrived)"
    using astream_loop_calls [OF assms(3), of new_frame] by (simp add: new_frame_def)
  ultimately show ?thesis using assms(1) by (simp add: on_message_def)
qed

theorem error_leaves_on_message_witness:
  "failing_session ''runnable'' = Some failing_stream
   \<and> failing_stream ''q'' = [RetrieverEnd [doc_a1], Chunk ''Gen''] @ Raise (OtherError ''GenerationError'') # []
   \<and> list_all (\<lambda>item. \<not> is_raise item) [RetrieverEnd [doc_a1], Chunk ''Gen'']
   \<and> made (on_message failing_session ''q'') = [StreamToken ''Gen'']
   \<and> raised (on_message failing_session ''q'') = Some (OtherError ''GenerationError'')"
proof -
  have h1: "failing_session ''runnable'' = Some failing_stream"
    by (simp add: failing_session_def)
  have h2: "failing_stream ''q'' =
      [RetrieverEnd [doc_a1], Chunk ''Gen''] @ Raise (OtherError ''GenerationError'') # []"
    by (simp add: failing_stream_def)
  have h3: "list_all (\<lambda>item. \<not> is_raise item) [RetrieverEnd [doc_a1], Chunk ''Gen'']" by simp
  from error_leaves_on_message
      [of failing_session failing_stream "''q''" "[RetrieverEnd [doc_a1], Chunk ''Gen'']"
        "OtherError ''GenerationError''" "[]"]
    h1 h2 h3
  show ?thesis by simp
qed

subsection \<open>The prompt\<close>

text \<open>Literal text is read as it is, and a field up to its closing brace.\<close>

lemma parse_literal:
  "CHR ''{'' \<notin> set s \<Longrightarrow> CHR ''}'' \<notin> set s \<Longrightarrow>
   parse_template lit None (s @ rest) = parse_template (rev s @ lit) None rest"
proof (induction s arbitrary: lit)
  case Nil
  then show ?case by simp
next
  case (Cons c s)
  show ?case
  proof (cases "s @ rest")
    case Nil
    with Cons.prems show ?thesis by auto
  next
    case (Cons d cs)
    have "parse_template lit None (c # d # cs) = parse_template (c # lit) None (d # cs)"
      using Cons.prems by auto
    also have "\<dots> = parse_template (c # lit) None (s @ rest)"
      using Cons by simp
    also have "\<dots> = parse_template (rev s @ c # lit) None rest"
      using Cons.IH [of "c # lit"] Cons.prems by simp
    finally show ?thesis using Cons by simp
  qed
qed

lemma parse_field_name:
  "CHR ''}'' \<notin> set name \<Longrightarrow>
   parse_template lit (Some acc) (name @ CHR ''}'' # rest) =
     (case parse_template [] None rest of
        Inl e \<Rightarrow> Inl e
      | Inr segs \<Rightarrow> Inr (Lit (rev lit) # Field (rev acc @ name) # segs))"
proof (induction name arbitrary: acc)
  case Nil
  show ?case by (simp cong: sum.case_cong)
next
  case (Cons c name)
  have "parse_template lit (Some acc) ((c # name) @ CHR ''}'' # rest) =
        parse_template lit (Some (c # acc)) (name @ CHR ''}'' # rest)"
    using Cons.prems by auto
  also have "\<dots> = (case parse_template [] None rest of
        Inl e \<Rightarrow> Inl e
      | Inr segs \<Rightarrow> Inr (Lit (rev lit) # Field (rev (c # acc) @ name) # segs))"
    using Cons.IH [of "c # acc"] Cons.prems by simp
  finally show ?case by (simp cong: sum.case_cong)
qed

lemma parse_field:
  assumes "CHR ''}'' \<notin> set name" "name \<noteq> []" "hd name \<noteq> CHR ''{''"
  shows "parse_template lit None (CHR ''{'' # name @ CHR ''}'' # rest) =
     (case parse_template [] None rest of
        Inl e \<Rightarrow> Inl e
      | Inr segs \<Rightarrow> Inr (Lit (rev lit) # Field name # segs))"
proof -
  obtain d cs where n: "name = d # cs" using assms(2) by (cases name) auto
  have "parse_template lit None (CHR ''{'' # name @ CHR ''}'' # rest) =
        parse_template lit (Some []) (name @ CHR ''}'' # rest)"
    using assms(3) n by simp
  then show ?thesis
    using parse_field_name [OF assms(1), of lit "[]" rest] by (simp cong: sum.case_cong)
qed

text \<open>
  The template has two fields, \<^verbatim>\<open>context\<close> and \<^verbatim>\<open>input\<close>, and no other brace.
\<close>

lemma template_split:
  "template = take 889 template @ CHR ''{'' # ''context'' @ CHR ''}'' #
     take 27 (drop 898 template) @ CHR ''{'' # ''input'' @ CHR ''}'' # drop 932 template"
  unfolding template_def by simp

lemma template_literals:
  "CHR ''{'' \<notin> set (take 889 template)" "CHR ''}'' \<notin> set (take 889 template)"
  "CHR ''{'' \<notin> set (take 27 (drop 898 template))"
  "CHR ''}'' \<notin> set (take 27 (drop 898 template))"
  "CHR ''{'' \<notin> set (drop 932 template)" "CHR ''}'' \<notin> set (drop 932 template)"
  unfolding template_def by simp_all

lemma template_parsed:
  "parse_template [] None template =
     Inr [Lit (take 889 template), Field ''context'', Lit (take 27 (drop 898 template)),
          Field ''input'', Lit (drop 932 template)]"
proof -
  let ?a = "take 889 template" and ?b = "take 27 (drop 898 template)"
    and ?c = "drop 932 template"
  have c: "parse_template [] None ?c = Inr [Lit ?c]"
    using parse_literal [OF template_literals(5,6), of "[]" "[]"] by simp
  have i: "parse_template (rev ?b) None (CHR ''{'' # ''input'' @ CHR ''}'' # ?c) =
             Inr [Lit ?b, Field ''input'', Lit ?c]"
    using parse_field [of "''input''" "rev ?b" ?c] c by simp
  have b: "parse_template [] None (?b @ CHR ''{'' # ''input'' @ CHR ''}'' # ?c) =
             Inr [Lit ?b, Field ''input'', Lit ?c]"
    using parse_literal [OF template_literals(3,4), of "[]" "CHR ''{'' # ''input'' @ CHR ''}'' # ?c"]
      i by simp
  have x: "parse_template (rev ?a) None
             (CHR ''{'' # ''context'' @ CHR ''}'' # ?b @ CHR ''{'' # ''input'' @ CHR ''}'' # ?c) =
           Inr [Lit ?a, Field ''context'', Lit ?b, Field ''input'', Lit ?c]"
    using parse_field [of "''context''" "rev ?a"
        "?b @ CHR ''{'' # ''input'' @ CHR ''}'' # ?c"] b by simp
  have "parse_template [] None
          (?a @ CHR ''{'' # ''context'' @ CHR ''}'' # ?b @ CHR ''{'' # ''input'' @ CHR ''}'' # ?c) =
        Inr [Lit ?a, Field ''context'', Lit ?b, Field ''input'', Lit ?c]"
    using parse_literal [OF template_literals(1,2), of "[]"
        "CHR ''{'' # ''context'' @ CHR ''}'' # ?b @ CHR ''{'' # ''input'' @ CHR ''}'' # ?c"]
      x by simp
  then show ?thesis using template_split by simp
qed

lemma format_without_input:
  "format_segments [Lit a, Field ''context'', Lit b, Field ''input'', Lit c]
     [''context'' \<mapsto> x, ''question'' \<mapsto> q] = Inl (KeyError ''input'')"
  by simp

text \<open>
  C2. The claim is that the prompt given to the model holds the texts of the chunks, joined
  by blank lines in the order of retrieval, followed by the question. The chain does not
  get that far: its first step supplies the keys \<^verbatim>\<open>context\<close> and \<^verbatim>\<open>question\<close>, the template
  asks for \<^verbatim>\<open>context\<close> and \<^verbatim>\<open>input\<close>, and formatting raises \<^verbatim>\<open>KeyError\<close> for \<^verbatim>\<open>input\<close>,
  whatever the documents and the question. Every request of a session set up by
  \<^verbatim>\<open>on_chat_start\<close> ends with an exception (that of the retriever, or this one) before the
  model is called, and nothing is forwarded or sent.
\<close>

theorem prompt_raises_key_error:
  "\<exists>prompt.
     on_chat_start retr llm user_session = Inr (user_session(''runnable'' \<mapsto> chain prompt retr llm))
     \<and> (\<forall>docs q. format_segments prompt
            [''context'' \<mapsto> format_docs docs, ''question'' \<mapsto> q] = Inl (KeyError ''input''))
     \<and> on_message (user_session(''runnable'' \<mapsto> chain prompt retr llm)) question =
         \<lparr>made = [],
          raised = Some (case retr question of Inl e \<Rightarrow> e | Inr docs \<Rightarrow> KeyError ''input'')\<rparr>"
proof -
  let ?prompt = "[Lit (take 889 template), Field ''context'', Lit (take 27 (drop 898 template)),
          Field ''input'', Lit (drop 932 template)]"
  have f: "\<And>docs q. format_segments ?prompt
            [''context'' \<mapsto> format_docs docs, ''question'' \<mapsto> q] = Inl (KeyError ''input'')"
    by (rule format_without_input)
  have s: "on_chat_start retr llm user_session =
             Inr (user_session(''runnable'' \<mapsto> chain ?prompt retr llm))"
    by (simp only: on_chat_start_def template_parsed sum.case)
  have m: "on_message (user_session(''runnable'' \<mapsto> chain ?prompt retr llm)) question =
         \<lparr>made = [],
          raised = Some (case retr question of Inl e \<Rightarrow> e | Inr docs \<Rightarrow> KeyError ''input'')\<rparr>"
  proof (cases "retr question")
    case (Inl e)
    then show ?thesis by (simp add: on_message_def chain_def new_frame_def)
  next
    case (Inr docs)
    have "chain ?prompt retr llm question = [RetrieverEnd docs, Raise (KeyError ''input'')]"
      unfolding chain_def using Inr f [of docs question] by (simp only: sum.case list.simps)
    then show ?thesis using Inr by (simp add: on_message_def new_frame_def)
  qed
  from s f m show ?thesis by blast
qed

subsection \<open>Start-up\<close>

lemma example_startup:
  "startup example_constants (example_environment index_present) = Inr (example_app index_present)"
  by (simp add: startup_def example_constants_def example_environment_def example_config_def
      example_app_def example_embeddings_def the_model_def Let_def)

lemma startup_cases:
  assumes "startup c env = Inr a"
  obtains config part where
    "load_config env (config_chatbot_dir c) = Inr config"
    "subscript config ''embedding_model'' = Inr part"
    "subscript part ''sentence-transformers'' = Inr (embedding_config a)"
    "subscript config ''retriever'' = Inr (retriever_config a)"
    "subscript config ''llama_cpp'' = Inr (llama_config a)"
    "process_pdf env (chatbot_dir c) = Inr (all_splits a)"
    "embedding_model a =
       \<lparr>model_name = embedding_config a, device = ''cpu'', token = huggingface_token c,
        trust_remote_code = True\<rparr>"
    "vectorstore a =
       (if path_exists env ''data/vectorstore/chroma.sqlite3''
        then Chroma ''data/vectorstore'' (embedding_model a)
        else Chroma_from_documents (all_splits a) (embedding_model a) ''data/vectorstore'')"
    "retriever a = \<lparr>store = vectorstore a, search_type = ''similarity'', search_k = 3\<rparr>"
    "model a = the_model"
  using assms
  by (auto simp: startup_def Let_def the_model_def split: sum.splits if_splits)

text \<open>
  C3. At start-up, when the index file \<^verbatim>\<open>data/vectorstore/chroma.sqlite3\<close> exists, the vector
  store is opened from the directory \<^verbatim>\<open>data/vectorstore\<close> and nothing is embedded; otherwise
  it is built from the ingested chunks, every one of which is embedded, and kept in that
  directory. The test is made by the start-up code, which then calls one constructor of
  the store or the other.
\<close>

theorem vectorstore_load_or_build:
  assumes "startup c env = Inr a"
  shows "vectorstore a =
           (if path_exists env ''data/vectorstore/chroma.sqlite3''
            then Chroma ''data/vectorstore'' (embedding_model a)
            else Chroma_from_documents (all_splits a) (embedding_model a) ''data/vectorstore'')
         \<and> embedded_texts (vectorstore a) =
           (if path_exists env ''data/vectorstore/chroma.sqlite3'' then []
            else map page_content (all_splits a))
         \<and> persist_directory (vectorstore a) = ''data/vectorstore''"
  using assms by (rule startup_cases) simp

theorem vectorstore_load_or_build_witness:
  "startup example_constants (example_environment True) = Inr (example_app True)
   \<and> startup example_constants (example_environment False) = Inr (example_app False)
   \<and> vectorstore (example_app True) = Chroma ''data/vectorstore'' example_embeddings
   \<and> embedded_texts (vectorstore (example_app True)) = []
   \<and> vectorstore (example_app False) =
       Chroma_from_documents [doc_a1, doc_b2] example_embeddings ''data/vectorstore''
   \<and> embedded_texts (vectorstore (example_app False)) = [''alpha'', ''gamma'']"
  using vectorstore_load_or_build [OF example_startup [of True]]
    vectorstore_load_or_build [OF example_startup [of False]]
    example_startup [of True] example_startup [of False]
  by (simp add: example_app_def example_environment_def doc_a1_def doc_b2_def Let_def)

text \<open>
  C10. \<^verbatim>\<open>process_pdf\<close> runs at every start-up and before the test for the index file: a
  start-up that succeeds has ingested, and had ingestion raised, start-up would have ended
  with that exception whether the index file exists or not. When the index file exists,
  the ingested chunks are not used: with any other chunks the vector store, the retriever,
  the embedding model and the model would be the same.
\<close>

theorem ingestion_unconditional:
  assumes "startup c env = Inr a"
  shows "process_pdf env (chatbot_dir c) = Inr (all_splits a)
         \<and> (\<forall>e present.
               startup c (env\<lparr>process_pdf := \<lambda>directory. Inl e, path_exists := present\<rparr>) = Inl e)
         \<and> (path_exists env ''data/vectorstore/chroma.sqlite3'' \<longrightarrow>
             (\<forall>splits. \<exists>a'.
                startup c (env\<lparr>process_pdf := \<lambda>directory. Inr splits\<rparr>) = Inr a'
                \<and> all_splits a' = splits
                \<and> vectorstore a' = vectorstore a \<and> retriever a' = retriever a
                \<and> embedding_model a' = embedding_model a \<and> model a' = model a))"
  using assms
  by (auto simp: startup_def Let_def split: sum.splits if_splits)

theorem ingestion_unconditional_witness:
  "startup example_constants (example_environment True) = Inr (example_app True)
   \<and> path_exists (example_environment True) ''data/vectorstore/chroma.sqlite3''
   \<and> process_pdf (example_environment True) (chatbot_dir example_constants) = Inr [doc_a1, doc_b2]
   \<and> startup example_constants
        ((example_environment True)
           \<lparr>process_pdf := \<lambda>directory. Inl (OtherError ''IngestionError''),
            path_exists := path_exists (example_environment True)\<rparr>) =
       Inl (OtherError ''IngestionError'')
   \<and> (\<exists>a'. startup example_constants
               ((example_environment True)\<lparr>process_pdf := \<lambda>directory. Inr [doc_a1_more]\<rparr>) = Inr a'
          \<and> all_splits a' = [doc_a1_more]
          \<and> vectorstore a' = Chroma ''data/vectorstore'' example_embeddings)"
proof -
  have h: "startup example_constants (example_environment True) = Inr (example_app True)"
    by (rule example_startup)
  have p: "path_exists (example_environment True) ''data/vectorstore/chroma.sqlite3''"
    by (simp add: example_environment_def)
  have v: "vectorstore (example_app True) = Chroma ''data/vectorstore'' example_embeddings"
    and s: "all_splits (example_app True) = [doc_a1, doc_b2]"
    by (simp_all add: example_app_def Let_def)
  from ingestion_unconditional [OF h]
  have a: "process_pdf (example_environment True) (chatbot_dir example_constants) =
             Inr (all_splits (example_app True))"
    and b: "\<forall>e present. startup example_constants
              ((example_environment True)
                 \<lparr>process_pdf := \<lambda>directory. Inl e, path_exists := present\<rparr>) = Inl e"
    and c: "path_exists (example_environment True) ''data/vectorstore/chroma.sqlite3'' \<longrightarrow>
             (\<forall>splits. \<exists>a'.
                startup example_constants
                  ((example_environment True)\<lparr>process_pdf := \<lambda>directory. Inr splits\<rparr>) = Inr a'
                \<and> all_splits a' = splits
                \<and> vectorstore a' = vectorstore (example_app True)
                \<and> retriever a' = retriever (example_app True)
                \<and> embedding_model a' = embedding_model (example_app True)
                \<and> model a' = model (example_app True))"
    by blast+
  from b have b': "startup example_constants
        ((example_environment True)
           \<lparr>process_pdf := \<lambda>directory. Inl (OtherError ''IngestionError''),
            path_exists := path_exists (example_environment True)\<rparr>) =
       Inl (OtherError ''IngestionError'')"
    by blast
  from c p have "\<exists>a'. startup example_constants
               ((example_environment True)\<lparr>process_pdf := \<lambda>directory. Inr [doc_a1_more]\<rparr>) = Inr a'
          \<and> all_splits a' = [doc_a1_more]
          \<and> vectorstore a' = vectorstore (example_app True)"
    by blast
  then have c': "\<exists>a'. startup example_constants
               ((example_environment True)\<lparr>process_pdf := \<lambda>directory. Inr [doc_a1_more]\<rparr>) = Inr a'
          \<and> all_splits a' = [doc_a1_more]
          \<and> vectorstore a' = Chroma ''data/vectorstore'' example_embeddings"
    by (simp only: v)
  from a have a': "process_pdf (example_environment True) (chatbot_dir example_constants) =
             Inr [doc_a1, doc_b2]"
    by (simp only: s)
  from h p a' b' c' show ?thesis by (intro conjI)
qed

text \<open>
  C5. The retriever is built for a similarity search with \<open>k\<close> fixed at 3: for every query,
  retrieval embeds the text of the query and searches the index with \<open>k = 3\<close>, and its result
  has at most 3 chunks.
\<close>

theorem retrieval_at_most_three:
  assumes "startup c env = Inr a"
  shows "search_k (retriever a) = 3 \<and> search_type (retriever a) = ''similarity''
         \<and> store (retriever a) = vectorstore a
         \<and> get_relevant_documents (retriever a) embed_query distance entries query =
             similarity_search distance entries (embed_query query) 3
         \<and> length (get_relevant_documents (retriever a) embed_query distance entries query) \<le> 3"
  using assms
  by (rule startup_cases) (simp add: get_relevant_documents_def similarity_search_def)

theorem retrieval_at_most_three_witness:
  "startup example_constants (example_environment True) = Inr (example_app True)
   \<and> map page_content
       (get_relevant_documents (retriever (example_app True)) (\<lambda>text. int (length text))
          (\<lambda>u v. \<bar>u - v\<bar>) example_entries ''four'') = [''beta'', ''alpha'', ''gamma'']
   \<and> length (get_relevant_documents (retriever (example_app True)) (\<lambda>text. int (length text))
          (\<lambda>u v. \<bar>u - v\<bar>) example_entries ''four'') \<le> 3"
proof -
  have h: "startup example_constants (example_environment True) = Inr (example_app True)"
    by (rule example_startup)
  let ?docs = "get_relevant_documents (retriever (example_app True)) (\<lambda>text. int (length text))
          (\<lambda>u v. \<bar>u - v\<bar>) example_entries ''four''"
  from retrieval_at_most_three [OF h, of "\<lambda>text. int (length text)" "\<lambda>u v. \<bar>u - v\<bar>"
      example_entries "''four''"]
  have e: "?docs = similarity_search (\<lambda>u v. \<bar>u - v\<bar>) example_entries (int (length ''four'')) 3"
    and l: "length ?docs \<le> 3"
    by blast+
  have "map page_content
          (similarity_search (\<lambda>u v. \<bar>u - v\<bar>) example_entries (int (length ''four'')) 3) =
        [''beta'', ''alpha'', ''gamma'']"
    by (simp add: similarity_search_def example_entries_def doc_a1_def doc_a1_more_def doc_b2_def)
  then have m: "map page_content ?docs = [''beta'', ''alpha'', ''gamma'']"
    by (simp only: e)
  from h m l show ?thesis by (intro conjI)
qed

text \<open>
  C8. The claim is that the parameters of the model are taken from the configuration. The
  model is constructed once, at start-up, and nothing changes it afterwards; but its
  parameters are written in the call of the constructor. The \<^verbatim>\<open>llama_cpp\<close> section of the
  configuration is read into \<^verbatim>\<open>llama_config\<close> and not used: any two start-ups that succeed,
  with whatever configurations, construct the same model.
\<close>

theorem model_ignores_configuration:
  assumes "startup c env = Inr a" and "startup c' env' = Inr a'"
  shows "model a = model a'
         \<and> model a =
             \<lparr>model_path = ''C:/Users/pnhua/Downloads/tinyllama-1.1b-chat-v1.0.Q4_K_S.gguf'',
              n_batch = 512, n_ctx = 2048, f16_kv = True, verbose = True, n_threads = 2,
              temperature = 0.7\<rparr>"
  using assms
  by (auto simp: startup_def Let_def split: sum.splits)

theorem model_ignores_configuration_witness:
  "(\<exists>a a'. startup example_constants (example_environment True) = Inr a
      \<and> startup example_constants
           ((example_environment True)\<lparr>load_config := \<lambda>path. Inr other_config\<rparr>) = Inr a'
      \<and> subscript (llama_config a) ''n_ctx'' = Inr (YScalar ''4096'')
      \<and> subscript (llama_config a') ''n_ctx'' = Inr (YScalar ''512'')
      \<and> n_ctx (model a) = 2048 \<and> n_ctx (model a') = 2048 \<and> model a = model a')"
proof -
  let ?env' = "(example_environment True)\<lparr>load_config := \<lambda>path. Inr other_config\<rparr>"
  obtain a' where h': "startup example_constants ?env' = Inr a'"
    and l': "subscript (llama_config a') ''n_ctx'' = Inr (YScalar ''512'')"
    by (simp add: startup_def example_constants_def example_environment_def other_config_def
        Let_def)
  have h: "startup example_constants (example_environment True) = Inr (example_app True)"
    by (rule example_startup)
  have l: "subscript (llama_config (example_app True)) ''n_ctx'' = Inr (YScalar ''4096'')"
    by (simp add: example_app_def Let_def)
  from model_ignores_configuration [OF h h']
  have e1: "model (example_app True) = model a'"
    and e2: "model (example_app True) =
             \<lparr>model_path = ''C:/Users/pnhua/Downloads/tinyllama-1.1b-chat-v1.0.Q4_K_S.gguf'',
              n_batch = 512, n_ctx = 2048, f16_kv = True, verbose = True, n_threads = 2,
              temperature = 0.7\<rparr>"
    by blast+
  have n: "n_ctx (model (example_app True)) = 2048"
    by (simp add: e2)
  then have n': "n_ctx (model a') = 2048"
    by (simp only: e1)
  from h h' l l' n n' e1 show ?thesis by blast
qed

subsection \<open>Authentication\<close>

text \<open>
  C9. For every pair of a user name and a password, the authentication callback returns the
  admin user exactly when the pair is ("admin", "admin"), and returns None for every other
  pair. The admin user is the user with the identifier \<^verbatim>\<open>admin\<close> whose metadata give the role
  \<^verbatim>\<open>admin\<close> and the provider \<^verbatim>\<open>credentials\<close>.
\<close>

theorem auth_callback_admin_only:
  "auth_callback username password =
     (if username = ''admin'' \<and> password = ''admin''
      then Some \<lparr>user_identifier = ''admin'',
                 user_metadata = [(''role'', ''admin''), (''provider'', ''credentials'')]\<rparr>
      else None)"
  by (simp add: auth_callback_def admin_user_def)

text \<open>
  The pair (admin, admin) is given the admin user, with its identifier, role and provider;
  a password that differs in one letter, a user name that differs, and the empty pair are
  refused.
\<close>

theorem auth_callback_admin_only_witness:
  "auth_callback ''admin'' ''admin'' =
     Some \<lparr>user_identifier = ''admin'',
           user_metadata = [(''role'', ''admin''), (''provider'', ''credentials'')]\<rparr>
   \<and> map_option user_identifier (auth_callback ''admin'' ''admin'') = Some ''admin''
   \<and> map_option (\<lambda>u. map_of (user_metadata u) ''role'') (auth_callback ''admin'' ''admin'') =
       Some (Some ''admin'')
   \<and> map_option (\<lambda>u. map_of (user_metadata u) ''provider'') (auth_callback ''admin'' ''admin'') =
       Some (Some ''credentials'')
   \<and> auth_callback ''admin'' ''Admin'' = None
   \<and> auth_callback ''root'' ''admin'' = None
   \<and> auth_callback [] [] = None"
  using auth_callback_admin_only [of "''admin''" "''admin''"]
    auth_callback_admin_only [of "''admin''" "''Admin''"]
    auth_callback_admin_only [of "''root''" "''admin''"]
    auth_callback_admin_only [of "[]" "[]"]
  by simp

end
